theory Spec2Isabelle
  imports Complex_Main "HOL-Library.List_Lexorder" "HOL-Library.Char_ord"
begin

section \<open>Input preparation of colabdesign/af/prep.py\<close>

text \<open>
  A shallow embedding of the input-preparation module: the fixed-size padder
  \<open>make_fixed_size\<close>, the index replication \<open>repeat_idx\<close>, the structure loader
  \<open>prep_pdb\<close> with its inner \<open>add_cb\<close>, and the parts of the four protocol
  procedures that build the residue index, the masks and the option snapshot.
\<close>

subsection \<open>Errors\<close>

text \<open>
  Every exception the modelled code can raise is a value.
  \<^item> \<open>RankMismatch\<close>: the \<open>AssertionError\<close> of the rank assertion in \<open>make_fixed_size\<close>
    (message "Rank mismatch between shape and shape schema");
  \<^item> \<open>PadTargetTooSmall\<close>: the error \<open>tf.pad\<close> raises when a padding amount is negative
    ("Paddings must be non-negative");
  \<^item> \<open>KeyError\<close>: a dictionary lookup of an absent key;
  \<^item> \<open>IndexError\<close>: \<open>x[-1]\<close> on an empty array;
  \<^item> \<open>ValueError\<close>: numpy operands whose shapes do not broadcast;
  \<^item> \<open>TypeError\<close>: an operation on an object of the wrong kind;
  \<^item> \<open>AttributeError\<close>: an attribute read before it was ever assigned;
  \<^item> \<open>RecursionError\<close>: the recursion limit, reached on a cyclic structure.
\<close>

datatype error =
  RankMismatch | PadTargetTooSmall | KeyError | IndexError | ValueError | TypeError
  | AttributeError | RecursionError

subsection \<open>Tensors\<close>

text \<open>
  An array is its shape (what \<open>v.shape\<close> returns) together with its elements, nested
  one list per axis. The shape is kept beside the elements because an axis of size 0
  leaves no element to read the later sizes from.
\<close>

datatype 'a nd = Scalar 'a | Array "'a nd list"

record 'a tensor =
  shape :: "nat list"
  elems :: "'a nd"

fun zeros :: "nat list \<Rightarrow> 'a::zero nd" where
  "zeros [] = Scalar 0"
| "zeros (n # ns) = Array (replicate n (zeros ns))"



fun all_zero :: "'a::zero nd \<Rightarrow> bool" where
  "all_zero (Scalar x) = (x = 0)"
| "all_zero (Array ts) = (\<forall>t \<in> set ts. all_zero t)"

text \<open>
  \<open>tf.pad(v, paddings)\<close> in its default constant mode: along each axis, \<open>before\<close> slices
  of zeros in front and \<open>after\<close> slices of zeros behind. The second argument of
  \<open>pad_nd\<close> is the shape of the result, which gives the size of the zero slices.
\<close>

fun pad_nd :: "(nat \<times> nat) list \<Rightarrow> nat list \<Rightarrow> 'a::zero nd \<Rightarrow> 'a nd" where
  "pad_nd ((a, b) # ks) (p # ps) (Array ts) =
     Array (replicate a (zeros ps) @ map (pad_nd ks ps) ts @ replicate b (zeros ps))"
| "pad_nd _ _ t = t"

text \<open>TensorFlow rejects a negative padding amount; otherwise each axis grows by both amounts.\<close>

definition tf_pad :: "'a::zero tensor \<Rightarrow> (int \<times> int) list \<Rightarrow> error + 'a tensor" where
  "tf_pad v padding =
     (if \<exists>q \<in> set padding. fst q < 0 \<or> snd q < 0 then Inl PadTargetTooSmall
      else
        let ks = map (\<lambda>q. (nat (fst q), nat (snd q))) padding;
            new = map (\<lambda>(s, k). fst k + s + snd k) (zip (shape v) ks)
        in Inr \<lparr>shape = new, elems = pad_nd ks new (elems v)\<rparr>)"

subsection \<open>The model configuration and the shape schema\<close>

text \<open>
  A dimension of a schema entry is one of the four placeholders of
  \<open>shape_placeholders\<close>, or \<open>None\<close>, or a literal size.
\<close>

datatype dim = NUM_RES | NUM_MSA_SEQ | NUM_EXTRA_SEQ | NUM_TEMPLATES | NoneDim | Literal nat

text \<open>
  The fields of \<open>model_runner.config\<close> that \<open>make_fixed_size\<close> reads:
  \<open>cfg.data.eval.feat\<close>, \<open>cfg.data.eval.max_msa_clusters\<close>,
  \<open>cfg.data.eval.max_templates\<close> and \<open>cfg.data.common.max_extra_msa\<close>.
\<close>

record config =
  feat :: "(string \<times> dim list) list"
  max_msa_clusters :: int
  max_templates :: int
  max_extra_msa :: int

text \<open>\<open>shape_schema[k]\<close>, with the leading \<open>None\<close> of the batch axis when asked for.\<close>

definition shape_schema :: "config \<Rightarrow> bool \<Rightarrow> string \<Rightarrow> dim list option" where
  "shape_schema cfg batch_axis k =
     (case map_of (feat cfg) k of
        None \<Rightarrow> None
      | Some v \<Rightarrow> Some (if batch_axis then NoneDim # v else v))"

text \<open>\<open>pad_size_map.get(s2, None)\<close>: only the four placeholders are keys.\<close>

fun pad_size_map :: "config \<Rightarrow> int \<Rightarrow> dim \<Rightarrow> int option" where
  "pad_size_map cfg len NUM_RES = Some len"
| "pad_size_map cfg len NUM_MSA_SEQ = Some (max_msa_clusters cfg - max_templates cfg)"
| "pad_size_map cfg len NUM_EXTRA_SEQ = Some (max_extra_msa cfg)"
| "pad_size_map cfg len NUM_TEMPLATES = Some (max_templates cfg)"
| "pad_size_map cfg len NoneDim = None"
| "pad_size_map cfg len (Literal n) = None"

text \<open>Python's \<open>x or s1\<close> on an optional integer: \<open>None\<close> and \<open>0\<close> are both falsy.\<close>

fun py_or :: "int option \<Rightarrow> int \<Rightarrow> int" where
  "py_or None s1 = s1"
| "py_or (Some t) s1 = (if t = 0 then s1 else t)"

text \<open>\<open>[pad_size_map.get(s2, None) or s1 for (s1, s2) in zip(shape, schema)]\<close>\<close>

definition pad_size :: "config \<Rightarrow> int \<Rightarrow> nat list \<Rightarrow> dim list \<Rightarrow> int list" where
  "pad_size cfg len shp schema =
     map (\<lambda>(s1, s2). py_or (pad_size_map cfg len s2) (int s1)) (zip shp schema)"

subsection \<open>make_fixed_size\<close>

text \<open>
  A feature dictionary is a list of items in insertion order, the order in which
  \<open>feat.items()\<close> yields them; the first failing tensor raises.

  \<open>fixed_size_item\<close> is the body of the loop for one item \<open>(k, v)\<close>: the skip of
  \<open>extra_cluster_assignment\<close>, the schema lookup, the rank assertion, the padding list
  \<open>[(0, p - tf.shape(v)[i]) ...]\<close> and, when that list is not empty, \<open>tf.pad\<close>.
  The \<open>set_shape(pad_size)\<close> that follows declares the shape the padded tensor
  already has. The dictionary passed in is updated in place with the same padded
  tensors; the value returned is modelled, and every caller uses that one.
\<close>

definition fixed_size_item ::
  "config \<Rightarrow> int \<Rightarrow> bool \<Rightarrow> string \<times> 'a::zero tensor \<Rightarrow> error + (string \<times> 'a tensor)" where
  "fixed_size_item cfg len batch_axis kv =
     (let k = fst kv; v = snd kv in
      if k = ''extra_cluster_assignment'' then Inr (k, v)
      else
        case shape_schema cfg batch_axis k of
          None \<Rightarrow> Inl KeyError
        | Some schema \<Rightarrow>
            if length (shape v) \<noteq> length schema then Inl RankMismatch
            else
              let ps = pad_size cfg len (shape v) schema;
                  padding = map (\<lambda>(p, s). (0, p - int s)) (zip ps (shape v))
              in if padding = [] then Inr (k, v)
                 else (case tf_pad v padding of
                         Inl e \<Rightarrow> Inl e
                       | Inr v' \<Rightarrow> Inr (k, v')))"

fun make_fixed_size_loop ::
  "config \<Rightarrow> int \<Rightarrow> bool \<Rightarrow> (string \<times> 'a::zero tensor) list
     \<Rightarrow> error + (string \<times> 'a tensor) list" where
  "make_fixed_size_loop cfg len batch_axis [] = Inr []"
| "make_fixed_size_loop cfg len batch_axis (kv # rest) =
     (case fixed_size_item cfg len batch_axis kv of
        Inl e \<Rightarrow> Inl e
      | Inr kv' \<Rightarrow>
          (case make_fixed_size_loop cfg len batch_axis rest of
             Inl e \<Rightarrow> Inl e
           | Inr rest' \<Rightarrow> Inr (kv' # rest')))"

definition make_fixed_size ::
  "(string \<times> 'a::zero tensor) list \<Rightarrow> config \<Rightarrow> int \<Rightarrow> bool
     \<Rightarrow> error + (string \<times> 'a tensor) list" where
  "make_fixed_size feat_items cfg len batch_axis =
     make_fixed_size_loop cfg len batch_axis feat_items"

subsection \<open>repeat_idx and the numpy functions it uses\<close>









subsection \<open>Dictionaries\<close>

text \<open>\<open>d[k] = v\<close> on a dictionary kept in insertion order, and \<open>d.update(new)\<close>.\<close>

fun dict_set :: "'k \<Rightarrow> 'v \<Rightarrow> ('k \<times> 'v) list \<Rightarrow> ('k \<times> 'v) list" where
  "dict_set k v [] = [(k, v)]"
| "dict_set k v (kv # rest) = (if fst kv = k then (k, v) # rest else kv # dict_set k v rest)"


definition dict_get :: "('k \<times> 'v) list \<Rightarrow> 'k \<Rightarrow> error + 'v" where
  "dict_get d k = (case map_of d k of None \<Rightarrow> Inl KeyError | Some v \<Rightarrow> Inr v)"

subsection \<open>The store of the design options\<close>









subsection \<open>The design object and the external collaborators\<close>









subsection \<open>_prep_hallucination\<close>


subsection \<open>prep_pdb and add_cb\<close>




text \<open>\<open>x[keep]\<close> with a boolean array \<open>keep\<close>: the entries where it is true.\<close>

definition np_select :: "bool list \<Rightarrow> 'b list \<Rightarrow> error + 'b list" where
  "np_select keep xs =
     (if length keep = length xs then Inr (map snd (filter fst (zip keep xs)))
      else Inl IndexError)"















subsection \<open>Sequencing of steps that can raise\<close>


subsection \<open>Assignments into arrays\<close>










subsection \<open>_prep_binder\<close>


subsection \<open>_prep_fixbb\<close>


subsection \<open>_prep_partial\<close>





subsection \<open>Predicates used to state the padding properties\<close>

text \<open>
  \<open>trailing_pad t u\<close>: \<open>u\<close> is \<open>t\<close> with zero slices appended behind, along any axis;
  every element of \<open>t\<close> keeps its index.
\<close>

fun trailing_pad :: "'a::zero nd \<Rightarrow> 'a nd \<Rightarrow> bool"
  and trailing_pads :: "'a::zero nd list \<Rightarrow> 'a nd list \<Rightarrow> bool" where
  "trailing_pad (Scalar x) u = (u = Scalar x)"
| "trailing_pad (Array ts) (Array us) = trailing_pads ts us"
| "trailing_pad (Array ts) (Scalar y) = False"
| "trailing_pads [] us = (\<forall>u \<in> set us. all_zero u)"
| "trailing_pads (t # ts) [] = False"
| "trailing_pads (t # ts) (u # us) = (trailing_pad t u \<and> trailing_pads ts us)"

text \<open>
  A feature dictionary already has its fixed shapes: every tensor but
  \<open>extra_cluster_assignment\<close> has a schema entry of its rank, and every size is the one
  \<open>pad_size\<close> asks for.
\<close>

definition fixed_shaped :: "config \<Rightarrow> int \<Rightarrow> bool \<Rightarrow> (string \<times> 'a tensor) list \<Rightarrow> bool" where
  "fixed_shaped cfg len batch_axis feat_items \<longleftrightarrow>
     (\<forall>kv \<in> set feat_items. fst kv \<noteq> ''extra_cluster_assignment'' \<longrightarrow>
        (case shape_schema cfg batch_axis (fst kv) of
           None \<Rightarrow> False
         | Some schema \<Rightarrow>
             length (shape (snd kv)) = length schema \<and>
             pad_size cfg len (shape (snd kv)) schema = map int (shape (snd kv))))"

text \<open>
  Every tensor but \<open>extra_cluster_assignment\<close> has a schema entry, and its rank is the
  rank of that entry.
\<close>

definition ranks_match :: "config \<Rightarrow> bool \<Rightarrow> (string \<times> 'a tensor) list \<Rightarrow> bool" where
  "ranks_match cfg batch_axis feat_items \<longleftrightarrow>
     (\<forall>kv \<in> set feat_items. fst kv \<noteq> ''extra_cluster_assignment'' \<longrightarrow>
        (case shape_schema cfg batch_axis (fst kv) of
           None \<Rightarrow> False
         | Some schema \<Rightarrow> length (shape (snd kv)) = length schema))"

subsection \<open>Predicates used to state the snapshot property\<close>





subsection \<open>Example inputs\<close>




section \<open>Verification\<close>

subsection \<open>Padding: auxiliary facts\<close>

lemma length_pad_size: "length (pad_size cfg len shp sch) = min (length shp) (length sch)"
  by (simp add: pad_size_def)

lemma pad_size_nth:
  "i < length shp \<Longrightarrow> i < length sch \<Longrightarrow>
   pad_size cfg len shp sch ! i = py_or (pad_size_map cfg len (sch ! i)) (int (shp ! i))"
  by (simp add: pad_size_def)

lemma pad_nd_id: "\<forall>q \<in> set ks. q = (0, 0) \<Longrightarrow> pad_nd ks ps t = t"
proof (induction ks ps t rule: pad_nd.induct)
  case (1 a b ks p ps ts)
  then have "map (pad_nd ks ps) ts = ts"
    by (simp add: map_idI)
  with 1 show ?case by simp
qed simp_all

lemma all_zero_zeros: "all_zero (zeros ns :: 'a::zero nd)"
  by (induction ns) auto

lemma trailing_pads_map:
  "(\<And>t. t \<in> set ts \<Longrightarrow> trailing_pad t (f t)) \<Longrightarrow> \<forall>u \<in> set us. all_zero u \<Longrightarrow>
   trailing_pads ts (map f ts @ us)"
  by (induction ts) auto

lemma trailing_pads_refl: "(\<And>t. t \<in> set ts \<Longrightarrow> trailing_pad t t) \<Longrightarrow> trailing_pads ts ts"
  by (induction ts) auto

lemma trailing_pad_refl: "trailing_pad t t"
  by (induction t) (auto intro: trailing_pads_refl)

lemma trailing_pad_pad_nd:
  "\<forall>q \<in> set ks. fst q = 0 \<Longrightarrow> trailing_pad t (pad_nd ks ps t)"
proof (induction ks ps t rule: pad_nd.induct)
  case (1 a b ks p ps ts)
  then have a: "a = 0" by simp
  have "trailing_pads ts (map (pad_nd ks ps) ts @ replicate b (zeros ps))"
    by (rule trailing_pads_map) (use 1 in \<open>auto simp: all_zero_zeros\<close>)
  with a show ?case by simp
qed (simp_all add: trailing_pad_refl)

lemma padding_negative_iff:
  assumes "length ps = length shp"
  shows "(\<exists>q \<in> set (map (\<lambda>(p, s). (0::int, p - int s)) (zip ps shp)). fst q < 0 \<or> snd q < 0)
          \<longleftrightarrow> (\<exists>i < length shp. ps ! i < int (shp ! i))"
proof -
  have "(\<exists>q \<in> set (map (\<lambda>(p, s). (0::int, p - int s)) (zip ps shp)). fst q < 0 \<or> snd q < 0)
          \<longleftrightarrow> (\<exists>(p, s) \<in> set (zip ps shp). p < int s)"
    by (auto simp: case_prod_beta)
  also have "\<dots> \<longleftrightarrow> (\<exists>i < length shp. ps ! i < int (shp ! i))"
    using assms by (auto simp: set_zip)
  finally show ?thesis .
qed

lemma padded_shape:
  assumes "length ps = length shp" and "\<forall>i < length shp. int (shp ! i) \<le> ps ! i"
  shows "map (\<lambda>(s, k). fst k + s + snd k)
           (zip shp (map (\<lambda>(p, s). (0, nat (p - int s))) (zip ps shp))) = map nat ps"
  using assms by (intro nth_equalityI) auto

lemma tf_pad_trailing:
  assumes "length ps = length (shape v)"
  shows "tf_pad v (map (\<lambda>(p, s). (0, p - int s)) (zip ps (shape v))) =
           (if \<exists>i < length (shape v). ps ! i < int (shape v ! i) then Inl PadTargetTooSmall
            else Inr \<lparr>shape = map nat ps,
                      elems = pad_nd (map (\<lambda>(p, s). (0, nat (p - int s))) (zip ps (shape v)))
                                (map nat ps) (elems v)\<rparr>)"
proof (cases "\<exists>i < length (shape v). ps ! i < int (shape v ! i)")
  case True
  then show ?thesis
    unfolding tf_pad_def using padding_negative_iff [OF assms] by simp
next
  case False
  then have ge: "\<forall>i < length (shape v). int (shape v ! i) \<le> ps ! i"
    by (meson leI)
  have ks: "map (\<lambda>q. (nat (fst q), nat (snd q)))
              (map (\<lambda>(p, s). (0::int, p - int s)) (zip ps (shape v)))
            = map (\<lambda>(p, s). (0, nat (p - int s))) (zip ps (shape v))"
    by (simp add: case_prod_beta)
  have neg: "\<not> (\<exists>q \<in> set (map (\<lambda>(p, s). (0::int, p - int s)) (zip ps (shape v))).
                 fst q < 0 \<or> snd q < 0)"
    using False padding_negative_iff [OF assms] by simp
  show ?thesis
    unfolding tf_pad_def Let_def
    by (simp only: neg False if_False ks padded_shape [OF assms ge])
qed

lemma fixed_size_item_extra:
  "fixed_size_item cfg len b (''extra_cluster_assignment'', v) = Inr (''extra_cluster_assignment'', v)"
  by (simp add: fixed_size_item_def)

lemma fixed_size_item_no_schema:
  "k \<noteq> ''extra_cluster_assignment'' \<Longrightarrow> shape_schema cfg b k = None \<Longrightarrow>
   fixed_size_item cfg len b (k, v) = Inl KeyError"
  by (simp add: fixed_size_item_def)

lemma fixed_size_item_rank:
  "k \<noteq> ''extra_cluster_assignment'' \<Longrightarrow> shape_schema cfg b k = Some sch \<Longrightarrow>
   length (shape v) \<noteq> length sch \<Longrightarrow>
   fixed_size_item cfg len b (k, v) = Inl RankMismatch"
  by (simp add: fixed_size_item_def)

lemma fixed_size_item_schema:
  assumes "k \<noteq> ''extra_cluster_assignment''" and "shape_schema cfg b k = Some sch"
    and "length (shape v) = length sch"
  shows "fixed_size_item cfg len b (k, v) =
     (if \<exists>i < length (shape v). pad_size cfg len (shape v) sch ! i < int (shape v ! i)
      then Inl PadTargetTooSmall
      else Inr (k, \<lparr>shape = map nat (pad_size cfg len (shape v) sch),
                     elems = pad_nd (map (\<lambda>(p, s). (0, nat (p - int s)))
                                       (zip (pad_size cfg len (shape v) sch) (shape v)))
                               (map nat (pad_size cfg len (shape v) sch)) (elems v)\<rparr>))"
proof (cases "shape v = []")
  case True
  then have "pad_size cfg len (shape v) sch = []"
    by (simp add: pad_size_def)
  moreover have "v = \<lparr>shape = [], elems = elems v\<rparr>"
    using True by (cases v) simp
  ultimately show ?thesis
    using assms True by (simp add: fixed_size_item_def)
next
  case False
  let ?ps = "pad_size cfg len (shape v) sch"
  have len: "length ?ps = length (shape v)"
    using assms by (simp add: length_pad_size)
  then have ne: "map (\<lambda>(p, s). (0, p - int s)) (zip ?ps (shape v)) \<noteq> []"
    using False by (cases ?ps; cases "shape v") auto
  show ?thesis
    using assms ne tf_pad_trailing [OF len]
    by (simp add: fixed_size_item_def Let_def)
qed

lemma loop_Inr_iff:
  "make_fixed_size_loop cfg len b f = Inr g \<longleftrightarrow>
   list_all2 (\<lambda>kv kv'. fixed_size_item cfg len b kv = Inr kv') f g"
proof (induction f arbitrary: g)
  case Nil
  then show ?case by auto
next
  case (Cons kv rest)
  show ?case
  proof (cases "fixed_size_item cfg len b kv")
    case (Inl e)
    then show ?thesis by (cases g) auto
  next
    case item: (Inr kv')
    show ?thesis
    proof (cases "make_fixed_size_loop cfg len b rest")
      case (Inl e)
      then have "\<not> list_all2 (\<lambda>kv kv'. fixed_size_item cfg len b kv = Inr kv') rest g'" for g'
        using Cons.IH [of g'] by simp
      with item Inl show ?thesis by (cases g) auto
    next
      case (Inr rest')
      then have "list_all2 (\<lambda>kv kv'. fixed_size_item cfg len b kv = Inr kv') rest g' \<longleftrightarrow> g' = rest'" for g'
        using Cons.IH [of g'] by auto
      with item Inr show ?thesis by (cases g) auto
    qed
  qed
qed

lemma loop_first_error:
  "j < length f \<Longrightarrow> \<forall>j' < j. \<exists>r. fixed_size_item cfg len b (f ! j') = Inr r \<Longrightarrow>
   fixed_size_item cfg len b (f ! j) = Inl e \<Longrightarrow> make_fixed_size_loop cfg len b f = Inl e"
proof (induction f arbitrary: j)
  case Nil
  then show ?case by simp
next
  case (Cons kv rest)
  show ?case
  proof (cases j)
    case 0
    with Cons.prems show ?thesis by simp
  next
    case (Suc n)
    from Cons.prems(2) Suc obtain r where r: "fixed_size_item cfg len b kv = Inr r"
      by fastforce
    have "\<forall>j' < n. \<exists>r. fixed_size_item cfg len b (rest ! j') = Inr r"
      using Cons.prems(2) Suc by fastforce
    then have "make_fixed_size_loop cfg len b rest = Inl e"
      using Cons.IH [of n] Cons.prems Suc by simp
    with r show ?thesis by simp
  qed
qed

lemma loop_item_error:
  "j < length f \<Longrightarrow> fixed_size_item cfg len b (f ! j) = Inl e \<Longrightarrow>
   \<exists>e'. make_fixed_size_loop cfg len b f = Inl e'"
proof (cases "make_fixed_size_loop cfg len b f")
  case (Inl a)
  then show ?thesis by simp
next
  case (Inr g)
  assume "j < length f" "fixed_size_item cfg len b (f ! j) = Inl e"
  moreover from Inr have "list_all2 (\<lambda>kv kv'. fixed_size_item cfg len b kv = Inr kv') f g"
    by (simp add: loop_Inr_iff)
  ultimately show ?thesis
    by (auto simp: list_all2_conv_all_nth)
qed

lemma loop_error_origin:
  "make_fixed_size_loop cfg len b f = Inl e \<Longrightarrow>
   \<exists>j < length f. fixed_size_item cfg len b (f ! j) = Inl e"
proof (induction f)
  case Nil
  then show ?case by simp
next
  case (Cons kv rest)
  show ?case
  proof (cases "fixed_size_item cfg len b kv")
    case (Inl a)
    with Cons.prems show ?thesis by auto
  next
    case (Inr r)
    with Cons.prems have "make_fixed_size_loop cfg len b rest = Inl e"
      by (simp split: sum.splits)
    then obtain j where "j < length rest" "fixed_size_item cfg len b (rest ! j) = Inl e"
      using Cons.IH by blast
    then show ?thesis
      by (intro exI [of _ "Suc j"]) simp
  qed
qed

lemma loop_append:
  "make_fixed_size_loop cfg len b (xs @ ys) =
     (case make_fixed_size_loop cfg len b xs of
        Inl e \<Rightarrow> Inl e
      | Inr xs' \<Rightarrow>
          (case make_fixed_size_loop cfg len b ys of
             Inl e \<Rightarrow> Inl e
           | Inr ys' \<Rightarrow> Inr (xs' @ ys')))"
  by (induction xs) (auto split: sum.splits)

lemma loop_length:
  "make_fixed_size_loop cfg len b f = Inr g \<Longrightarrow> length g = length f"
  by (simp add: loop_Inr_iff list_all2_lengthD)

lemma py_or_idem: "py_or m (py_or m s) = py_or m s"
  by (cases m) auto

lemma pad_size_stable:
  assumes "length shp = length sch"
    and "\<forall>i < length shp. int (shp ! i) \<le> pad_size cfg len shp sch ! i"
  shows "pad_size cfg len (map nat (pad_size cfg len shp sch)) sch = pad_size cfg len shp sch"
proof (rule nth_equalityI)
  show "length (pad_size cfg len (map nat (pad_size cfg len shp sch)) sch) = length (pad_size cfg len shp sch)"
    using assms by (simp add: length_pad_size)
next
  fix i assume "i < length (pad_size cfg len (map nat (pad_size cfg len shp sch)) sch)"
  then have i: "i < length shp" "i < length sch"
    using assms by (simp_all add: length_pad_size)
  from assms(2) i have "int (shp ! i) \<le> pad_size cfg len shp sch ! i"
    by blast
  then have "int (shp ! i) \<le> py_or (pad_size_map cfg len (sch ! i)) (int (shp ! i))"
    using i by (simp add: pad_size_nth)
  then show "pad_size cfg len (map nat (pad_size cfg len shp sch)) sch ! i = pad_size cfg len shp sch ! i"
    using i by (simp add: pad_size_nth length_pad_size py_or_idem)
qed

lemma fixed_size_item_idem:
  assumes "fixed_size_item cfg len b kv = Inr kv'"
  shows "fixed_size_item cfg len b kv' = Inr kv'"
proof (cases "fst kv = ''extra_cluster_assignment''")
  case True
  with assms show ?thesis
    by (cases kv) (auto simp: fixed_size_item_extra)
next
  case False
  obtain k v where kv: "kv = (k, v)" by (cases kv)
  with False have k: "k \<noteq> ''extra_cluster_assignment''" by simp
  from assms kv k obtain sch where sch: "shape_schema cfg b k = Some sch"
    by (cases "shape_schema cfg b k") (auto simp: fixed_size_item_no_schema)
  have rank: "length (shape v) = length sch"
    using assms kv k sch by (cases "length (shape v) = length sch") (auto simp: fixed_size_item_rank)
  let ?ps = "pad_size cfg len (shape v) sch"
  let ?v' = "\<lparr>shape = map nat ?ps,
              elems = pad_nd (map (\<lambda>(p, s). (0, nat (p - int s))) (zip ?ps (shape v)))
                        (map nat ?ps) (elems v)\<rparr>"
  from assms kv have ok: "\<not> (\<exists>i < length (shape v). ?ps ! i < int (shape v ! i))" and kv': "kv' = (k, ?v')"
    using fixed_size_item_schema [OF k sch rank, of len] by (auto split: if_splits)
  from ok have ge: "\<forall>i < length (shape v). int (shape v ! i) \<le> ?ps ! i"
    by (meson leI)
  have stable: "pad_size cfg len (map nat ?ps) sch = ?ps"
    by (rule pad_size_stable [OF rank ge])
  have rank': "length (shape ?v') = length sch"
    using rank by (simp add: length_pad_size)
  have nonneg: "\<forall>i < length ?ps. 0 \<le> ?ps ! i"
    using ge rank by (auto simp: length_pad_size intro: order_trans [of 0 "int _"])
  have noexc: "\<not> (\<exists>i < length (shape ?v'). pad_size cfg len (shape ?v') sch ! i < int (shape ?v' ! i))"
    using nonneg by (simp add: stable)
  have zero: "\<forall>q \<in> set (map (\<lambda>(p, s). (0, nat (p - int s))) (zip ?ps (map nat ?ps))). q = (0, 0)"
    using nonneg by (auto simp: set_zip)
  show ?thesis
    unfolding kv'
    using fixed_size_item_schema [OF k sch rank', of len] noexc
    by (simp add: stable pad_nd_id [OF zero])
qed

lemma make_fixed_size_idem:
  "make_fixed_size f cfg len b = Inr g \<Longrightarrow> make_fixed_size g cfg len b = Inr g"
  unfolding make_fixed_size_def loop_Inr_iff
  by (induction f g rule: list_all2_induct) (auto simp: fixed_size_item_idem)

lemma fixed_size_item_shaped:
  assumes "k \<noteq> ''extra_cluster_assignment''" and "shape_schema cfg b k = Some sch"
    and "length (shape v) = length sch" and "pad_size cfg len (shape v) sch = map int (shape v)"
  shows "fixed_size_item cfg len b (k, v) = Inr (k, v)"
proof -
  have zero: "\<forall>q \<in> set (map (\<lambda>(p, s). (0, nat (p - int s))) (zip (map int (shape v)) (shape v))). q = (0, 0)"
    by (auto simp: set_zip)
  have v: "\<lparr>shape = map (nat \<circ> int) (shape v), elems = elems v\<rparr> = v"
    by (cases v) (simp add: comp_def)
  note item = fixed_size_item_schema [OF assms(1-3), of len, unfolded assms(4)]
  show ?thesis
    by (simp add: item pad_nd_id [OF zero] v)
qed

lemma fixed_shaped_noop:
  "fixed_shaped cfg len b f \<Longrightarrow> make_fixed_size f cfg len b = Inr f"
proof (induction f)
  case Nil
  then show ?case by (simp add: make_fixed_size_def)
next
  case (Cons kv rest)
  obtain k v where kv: "kv = (k, v)" by (cases kv)
  from Cons.prems have rest: "fixed_shaped cfg len b rest"
    by (simp add: fixed_shaped_def)
  have "fixed_size_item cfg len b (k, v) = Inr (k, v)"
  proof (cases "k = ''extra_cluster_assignment''")
    case True
    then show ?thesis by (simp add: fixed_size_item_extra)
  next
    case False
    with Cons.prems kv show ?thesis
      by (auto simp: fixed_shaped_def fixed_size_item_shaped split: option.splits)
  qed
  with Cons.IH [OF rest] kv show ?case
    by (simp add: make_fixed_size_def)
qed

lemma fixed_size_item_InrD:
  assumes "fixed_size_item cfg len b (k, v) = Inr r" and "k \<noteq> ''extra_cluster_assignment''"
  obtains sch where "shape_schema cfg b k = Some sch" and "length (shape v) = length sch"
    and "\<forall>i < length (shape v). int (shape v ! i) \<le> pad_size cfg len (shape v) sch ! i"
    and "r = (k, \<lparr>shape = map nat (pad_size cfg len (shape v) sch),
                   elems = pad_nd (map (\<lambda>(p, s). (0, nat (p - int s)))
                                     (zip (pad_size cfg len (shape v) sch) (shape v)))
                             (map nat (pad_size cfg len (shape v) sch)) (elems v)\<rparr>)"
proof -
  from assms obtain sch where sch: "shape_schema cfg b k = Some sch"
    by (cases "shape_schema cfg b k") (auto simp: fixed_size_item_no_schema)
  have rank: "length (shape v) = length sch"
    using assms sch by (cases "length (shape v) = length sch") (auto simp: fixed_size_item_rank)
  let ?ps = "pad_size cfg len (shape v) sch"
  from assms have ok: "\<not> (\<exists>i < length (shape v). ?ps ! i < int (shape v ! i))"
    and r: "r = (k, \<lparr>shape = map nat ?ps,
                   elems = pad_nd (map (\<lambda>(p, s). (0, nat (p - int s))) (zip ?ps (shape v)))
                             (map nat ?ps) (elems v)\<rparr>)"
    using fixed_size_item_schema [OF assms(2) sch rank, of len] by (auto split: if_splits)
  from ok have ge: "\<forall>i < length (shape v). int (shape v ! i) \<le> ?ps ! i"
    by (meson leI)
  show ?thesis by (rule that [OF sch rank ge r])
qed

lemma make_fixed_size_nth:
  "make_fixed_size f cfg len b = Inr g \<Longrightarrow> j < length f \<Longrightarrow>
   fixed_size_item cfg len b (f ! j) = Inr (g ! j)"
  by (simp add: make_fixed_size_def loop_Inr_iff list_all2_conv_all_nth)

lemma pad_size_zero_target:
  assumes "i < length shp" and "i < length sch" and "pad_size_map cfg len (sch ! i) = Some 0"
  shows "pad_size cfg len shp sch ! i = int (shp ! i)"
    and "pad_size_map cfg len d = None \<Longrightarrow> pad_size cfg len shp (sch[i := d]) = pad_size cfg len shp sch"
proof -
  show "pad_size cfg len shp sch ! i = int (shp ! i)"
    using assms by (simp add: pad_size_nth)
  assume d: "pad_size_map cfg len d = None"
  show "pad_size cfg len shp (sch[i := d]) = pad_size cfg len shp sch"
  proof (rule nth_equalityI)
    show "length (pad_size cfg len shp (sch[i := d])) = length (pad_size cfg len shp sch)"
      by (simp add: length_pad_size)
  next
    fix n assume "n < length (pad_size cfg len shp (sch[i := d]))"
    then have n: "n < length shp" "n < length sch" by (simp_all add: length_pad_size)
    then show "pad_size cfg len shp (sch[i := d]) ! n = pad_size cfg len shp sch ! n"
      using assms d by (cases "n = i") (simp_all add: pad_size_nth)
  qed
qed

subsection \<open>C7: padding is idempotent\<close>

text \<open>
  Claim C7. Padding is idempotent: when \<open>make_fixed_size\<close> returns a dictionary, applying
  it again with the same configuration and target length returns that same dictionary;
  and on a dictionary whose tensors already have their fixed shapes it changes neither
  a shape nor a value.
\<close>

theorem make_fixed_size_idempotent:
  "(make_fixed_size f cfg len b = Inr g \<longrightarrow> make_fixed_size g cfg len b = Inr g) \<and>
   (fixed_shaped cfg len b f \<longrightarrow> make_fixed_size f cfg len b = Inr f)"
  by (simp add: make_fixed_size_idem fixed_shaped_noop)

theorem make_fixed_size_idempotent_witness:
  "make_fixed_size
     [(''seq_mask'', \<lparr>shape = [2], elems = Array [Scalar (1::int), Scalar 1]\<rparr>),
      (''msa_mask'', \<lparr>shape = [1, 2], elems = Array [Array [Scalar 1, Scalar 1]]\<rparr>)]
     \<lparr>feat = [(''seq_mask'', [NUM_RES]), (''msa_mask'', [NUM_MSA_SEQ, NUM_RES])],
      max_msa_clusters = 2, max_templates = 0, max_extra_msa = 1\<rparr> 3 False
   = Inr [(''seq_mask'', \<lparr>shape = [3], elems = Array [Scalar 1, Scalar 1, Scalar 0]\<rparr>),
          (''msa_mask'', \<lparr>shape = [2, 3],
             elems = Array [Array [Scalar 1, Scalar 1, Scalar 0],
                            Array [Scalar 0, Scalar 0, Scalar 0]]\<rparr>)] \<and>
   make_fixed_size
     [(''seq_mask'', \<lparr>shape = [3], elems = Array [Scalar (1::int), Scalar 1, Scalar 0]\<rparr>),
      (''msa_mask'', \<lparr>shape = [2, 3],
         elems = Array [Array [Scalar 1, Scalar 1, Scalar 0],
                        Array [Scalar 0, Scalar 0, Scalar 0]]\<rparr>)]
     \<lparr>feat = [(''seq_mask'', [NUM_RES]), (''msa_mask'', [NUM_MSA_SEQ, NUM_RES])],
      max_msa_clusters = 2, max_templates = 0, max_extra_msa = 1\<rparr> 3 False
   = Inr [(''seq_mask'', \<lparr>shape = [3], elems = Array [Scalar 1, Scalar 1, Scalar 0]\<rparr>),
          (''msa_mask'', \<lparr>shape = [2, 3],
             elems = Array [Array [Scalar 1, Scalar 1, Scalar 0],
                            Array [Scalar 0, Scalar 0, Scalar 0]]\<rparr>)]"
proof -
  let ?cfg = "\<lparr>feat = [(''seq_mask'', [NUM_RES]), (''msa_mask'', [NUM_MSA_SEQ, NUM_RES])],
      max_msa_clusters = 2, max_templates = 0, max_extra_msa = 1\<rparr>"
  let ?f = "[(''seq_mask'', \<lparr>shape = [2], elems = Array [Scalar (1::int), Scalar 1]\<rparr>),
      (''msa_mask'', \<lparr>shape = [1, 2], elems = Array [Array [Scalar 1, Scalar 1]]\<rparr>)]"
  let ?g = "[(''seq_mask'', \<lparr>shape = [3], elems = Array [Scalar (1::int), Scalar 1, Scalar 0]\<rparr>),
          (''msa_mask'', \<lparr>shape = [2, 3],
             elems = Array [Array [Scalar 1, Scalar 1, Scalar 0],
                            Array [Scalar 0, Scalar 0, Scalar 0]]\<rparr>)]"
  have first: "make_fixed_size ?f ?cfg 3 False = Inr ?g"
    by (simp add: make_fixed_size_def fixed_size_item_def shape_schema_def pad_size_def
        tf_pad_def numeral_2_eq_2 numeral_3_eq_3)
  have shaped: "fixed_shaped ?cfg 3 False ?g"
    by (simp add: fixed_shaped_def shape_schema_def pad_size_def)
  from make_fixed_size_idempotent [of ?f ?cfg 3 False ?g] first
  have "make_fixed_size ?g ?cfg 3 False = Inr ?g" by blast
  moreover from make_fixed_size_idempotent [of ?g ?cfg 3 False ?g] shaped
  have "make_fixed_size ?g ?cfg 3 False = Inr ?g" by blast
  ultimately show ?thesis using first by simp
qed

subsection \<open>C9: extra_cluster_assignment passes through\<close>

text \<open>
  Claim C9. The tensor named \<open>extra_cluster_assignment\<close> is skipped: whatever the
  configuration and the tensor, the loop body returns it as it is, with no schema lookup,
  no rank check and no padding; and the result of \<open>make_fixed_size\<close> on a dictionary that
  holds it is the result on the dictionary without it, with the tensor unchanged at its
  place.
\<close>

theorem extra_cluster_assignment_untouched:
  "fixed_size_item cfg len b (''extra_cluster_assignment'', v)
     = Inr (''extra_cluster_assignment'', v) \<and>
   make_fixed_size (f1 @ (''extra_cluster_assignment'', v) # f2) cfg len b =
     (case make_fixed_size (f1 @ f2) cfg len b of
        Inl e \<Rightarrow> Inl e
      | Inr g \<Rightarrow> Inr (take (length f1) g @ (''extra_cluster_assignment'', v) # drop (length f1) g))"
proof -
  have "make_fixed_size_loop cfg len b (f1 @ (''extra_cluster_assignment'', v) # f2) =
     (case make_fixed_size_loop cfg len b (f1 @ f2) of
        Inl e \<Rightarrow> Inl e
      | Inr g \<Rightarrow> Inr (take (length f1) g @ (''extra_cluster_assignment'', v) # drop (length f1) g))"
  proof (cases "make_fixed_size_loop cfg len b f1")
    case (Inl e)
    then show ?thesis by (simp add: loop_append)
  next
    case (Inr g1)
    then have "length g1 = length f1" by (rule loop_length)
    with Inr show ?thesis
      by (cases "make_fixed_size_loop cfg len b f2")
         (simp_all add: loop_append fixed_size_item_extra)
  qed
  then show ?thesis
    by (simp add: make_fixed_size_def fixed_size_item_extra)
qed

theorem extra_cluster_assignment_untouched_witness:
  "make_fixed_size
     [(''seq_mask'', \<lparr>shape = [2], elems = Array [Scalar (1::int), Scalar 1]\<rparr>),
      (''extra_cluster_assignment'', \<lparr>shape = [1, 2], elems = Array [Array [Scalar 4, Scalar 5]]\<rparr>)]
     \<lparr>feat = [(''seq_mask'', [NUM_RES]), (''extra_cluster_assignment'', [NUM_RES])],
      max_msa_clusters = 1, max_templates = 0, max_extra_msa = 1\<rparr> 3 False
   = Inr [(''seq_mask'', \<lparr>shape = [3], elems = Array [Scalar 1, Scalar 1, Scalar 0]\<rparr>),
          (''extra_cluster_assignment'', \<lparr>shape = [1, 2], elems = Array [Array [Scalar 4, Scalar 5]]\<rparr>)]"
proof -
  let ?cfg = "\<lparr>feat = [(''seq_mask'', [NUM_RES]), (''extra_cluster_assignment'', [NUM_RES])],
      max_msa_clusters = 1, max_templates = 0, max_extra_msa = 1\<rparr>"
  let ?s = "(''seq_mask'', \<lparr>shape = [2], elems = Array [Scalar (1::int), Scalar 1]\<rparr>)"
  have "make_fixed_size [?s] ?cfg 3 False
          = Inr [(''seq_mask'', \<lparr>shape = [3], elems = Array [Scalar 1, Scalar 1, Scalar 0]\<rparr>)]"
    by (simp add: make_fixed_size_def fixed_size_item_def shape_schema_def pad_size_def tf_pad_def)
  then show ?thesis
    using extra_cluster_assignment_untouched
      [of ?cfg 3 False "\<lparr>shape = [1, 2], elems = Array [Array [Scalar 4, Scalar 5]]\<rparr>" "[?s]" "[]"]
    by simp
qed

subsection \<open>C10: a pad target of 0 falls back to the existing size\<close>

text \<open>
  Claim C10. When the placeholder of dimension \<open>i\<close> resolves to the pad target 0 (for
  example \<open>NUM_MSA_SEQ\<close> when \<open>max_msa_clusters = max_templates\<close>), the size asked for is the
  existing size, the returned tensor keeps that size, and the sizes are the ones computed
  for a schema with \<open>None\<close> or a literal at that dimension.
\<close>

theorem zero_pad_target_keeps_existing_size:
  assumes "make_fixed_size f cfg len b = Inr g" and "j < length f" and "f ! j = (k, v)"
    and "k \<noteq> ''extra_cluster_assignment''" and "shape_schema cfg b k = Some sch"
    and "i < length sch" and "pad_size_map cfg len (sch ! i) = Some 0"
  shows "shape (snd (g ! j)) ! i = shape v ! i \<and>
         pad_size cfg len (shape v) sch ! i = int (shape v ! i) \<and>
         pad_size cfg len (shape v) (sch[i := NoneDim]) = pad_size cfg len (shape v) sch \<and>
         pad_size cfg len (shape v) (sch[i := Literal n]) = pad_size cfg len (shape v) sch"
proof -
  from assms(1-3) have item: "fixed_size_item cfg len b (k, v) = Inr (g ! j)"
    using make_fixed_size_nth by metis
  from item assms(4) obtain sch' where sch': "shape_schema cfg b k = Some sch'"
    and rank: "length (shape v) = length sch'"
    and g: "g ! j = (k, \<lparr>shape = map nat (pad_size cfg len (shape v) sch'),
                   elems = pad_nd (map (\<lambda>(p, s). (0, nat (p - int s)))
                                     (zip (pad_size cfg len (shape v) sch') (shape v)))
                             (map nat (pad_size cfg len (shape v) sch')) (elems v)\<rparr>)"
    by (rule fixed_size_item_InrD)
  from sch' assms(5) have [simp]: "sch' = sch" by simp
  from rank assms(6) have i: "i < length (shape v)" by simp
  note z = pad_size_zero_target [OF i assms(6,7)]
  have "shape (snd (g ! j)) ! i = shape v ! i"
    using g i assms(6) z(1) by (simp add: length_pad_size)
  with z show ?thesis by simp
qed

theorem zero_pad_target_keeps_existing_size_witness:
  "pad_size_map \<lparr>feat = [(''msa_mask'', [NUM_MSA_SEQ, NUM_RES])],
      max_msa_clusters = 4, max_templates = 4, max_extra_msa = 1\<rparr> 3 NUM_MSA_SEQ = Some 0 \<and>
   make_fixed_size
     [(''msa_mask'', \<lparr>shape = [1, 2], elems = Array [Array [Scalar (1::int), Scalar 1]]\<rparr>)]
     \<lparr>feat = [(''msa_mask'', [NUM_MSA_SEQ, NUM_RES])],
      max_msa_clusters = 4, max_templates = 4, max_extra_msa = 1\<rparr> 3 False
   = Inr [(''msa_mask'', \<lparr>shape = [1, 3], elems = Array [Array [Scalar 1, Scalar 1, Scalar 0]]\<rparr>)] \<and>
   shape (snd ([(''msa_mask'', \<lparr>shape = [1, 3],
       elems = Array [Array [Scalar (1::int), Scalar 1, Scalar 0]]\<rparr>)] ! 0)) ! 0 = 1 \<and>
   pad_size \<lparr>feat = [(''msa_mask'', [NUM_MSA_SEQ, NUM_RES])],
      max_msa_clusters = 4, max_templates = 4, max_extra_msa = 1\<rparr> 3 [1, 2] [NUM_MSA_SEQ, NUM_RES]
     = [1, 3]"
proof -
  let ?cfg = "\<lparr>feat = [(''msa_mask'', [NUM_MSA_SEQ, NUM_RES])],
      max_msa_clusters = 4, max_templates = 4, max_extra_msa = 1\<rparr>"
  let ?v = "\<lparr>shape = [1, 2], elems = Array [Array [Scalar (1::int), Scalar 1]]\<rparr>"
  let ?g = "[(''msa_mask'', \<lparr>shape = [1, 3], elems = Array [Array [Scalar (1::int), Scalar 1, Scalar 0]]\<rparr>)]"
  have run: "make_fixed_size [(''msa_mask'', ?v)] ?cfg 3 False = Inr ?g"
    by (simp add: make_fixed_size_def fixed_size_item_def shape_schema_def pad_size_def tf_pad_def)
  have sch: "shape_schema ?cfg False ''msa_mask'' = Some [NUM_MSA_SEQ, NUM_RES]"
    by (simp add: shape_schema_def)
  have z: "pad_size_map ?cfg 3 ([NUM_MSA_SEQ, NUM_RES] ! 0) = Some 0"
    by simp
  from zero_pad_target_keeps_existing_size
         [OF run, of 0 "''msa_mask''" ?v "[NUM_MSA_SEQ, NUM_RES]" 0, OF _ _ _ sch _ z]
  have "shape (snd (?g ! 0)) ! 0 = shape ?v ! 0" by simp
  then show ?thesis using run by (simp add: pad_size_def)
qed

lemma fixed_size_item_grows:
  assumes "fixed_size_item cfg len b (k, v) = Inr r"
  shows "fst r = k \<and> list_all2 (\<le>) (shape v) (shape (snd r)) \<and>
         trailing_pad (elems v) (elems (snd r))"
proof (cases "k = ''extra_cluster_assignment''")
  case True
  with assms have "r = (k, v)" by (simp add: fixed_size_item_extra)
  then show ?thesis by (simp add: trailing_pad_refl list_all2_same)
next
  case False
  let ?ps = "\<lambda>sch. pad_size cfg len (shape v) sch"
  from assms False obtain sch where rank: "length (shape v) = length sch"
    and ge: "\<forall>i < length (shape v). int (shape v ! i) \<le> ?ps sch ! i"
    and r: "r = (k, \<lparr>shape = map nat (?ps sch),
                   elems = pad_nd (map (\<lambda>(p, s). (0, nat (p - int s))) (zip (?ps sch) (shape v)))
                             (map nat (?ps sch)) (elems v)\<rparr>)"
    by (rule fixed_size_item_InrD)
  have "list_all2 (\<le>) (shape v) (map nat (?ps sch))"
    using rank ge by (auto simp: list_all2_conv_all_nth length_pad_size)
  moreover have "trailing_pad (elems v)
      (pad_nd (map (\<lambda>(p, s). (0, nat (p - int s))) (zip (?ps sch) (shape v))) (map nat (?ps sch)) (elems v))"
    by (rule trailing_pad_pad_nd) auto
  ultimately show ?thesis using r by simp
qed

lemma make_fixed_size_item_error:
  "j < length f \<Longrightarrow> fixed_size_item cfg len b (f ! j) = Inl e \<Longrightarrow>
   (\<exists>e'. make_fixed_size f cfg len b = Inl e') \<and>
   ((\<forall>j' < j. \<exists>r. fixed_size_item cfg len b (f ! j') = Inr r) \<longrightarrow>
      make_fixed_size f cfg len b = Inl e)"
  unfolding make_fixed_size_def
  using loop_item_error [of j f cfg len b e] loop_first_error [of j f cfg len b e] by blast

subsection \<open>C3: trailing zero padding, no truncation\<close>

text \<open>
  Claim C3, as amended. When \<open>make_fixed_size\<close> returns, every tensor keeps its key, no
  dimension is smaller than before, and the new elements are the old ones with zeros
  appended behind along each axis. When a dimension of a tensor exceeds a pad target that
  its placeholder resolves to and that is not 0, the call fails and returns nothing; the
  error is \<open>PadTargetTooSmall\<close> when no earlier tensor of the dictionary fails.
  (A target of 0 does not fail: see the counterexample below and claim C10.)
\<close>

theorem make_fixed_size_pads_trailing:
  assumes "j < length f" and "f ! j = (k, v)"
  shows "(make_fixed_size f cfg len b = Inr g \<longrightarrow>
            fst (g ! j) = k \<and> list_all2 (\<le>) (shape v) (shape (snd (g ! j))) \<and>
            trailing_pad (elems v) (elems (snd (g ! j)))) \<and>
         (k \<noteq> ''extra_cluster_assignment'' \<and> shape_schema cfg b k = Some sch \<and>
          length (shape v) = length sch \<and> i < length sch \<and>
          pad_size_map cfg len (sch ! i) = Some t \<and> t \<noteq> 0 \<and> t < int (shape v ! i) \<longrightarrow>
            (\<exists>e. make_fixed_size f cfg len b = Inl e) \<and>
            ((\<forall>j' < j. \<exists>r. fixed_size_item cfg len b (f ! j') = Inr r) \<longrightarrow>
               make_fixed_size f cfg len b = Inl PadTargetTooSmall))"
proof (intro conjI impI)
  assume run: "make_fixed_size f cfg len b = Inr g"
  then have "fixed_size_item cfg len b (k, v) = Inr (g ! j)"
    using assms make_fixed_size_nth by metis
  then have grows: "fst (g ! j) = k \<and> list_all2 (\<le>) (shape v) (shape (snd (g ! j))) \<and>
         trailing_pad (elems v) (elems (snd (g ! j)))"
    by (rule fixed_size_item_grows)
  from grows show "fst (g ! j) = k" by simp
  from grows show "list_all2 (\<le>) (shape v) (shape (snd (g ! j)))" by simp
  from grows show "trailing_pad (elems v) (elems (snd (g ! j)))" by simp
next
  assume h: "k \<noteq> ''extra_cluster_assignment'' \<and> shape_schema cfg b k = Some sch \<and>
          length (shape v) = length sch \<and> i < length sch \<and>
          pad_size_map cfg len (sch ! i) = Some t \<and> t \<noteq> 0 \<and> t < int (shape v ! i)"
  then have i: "i < length (shape v)" by simp
  from h i have "pad_size cfg len (shape v) sch ! i = t"
    by (simp add: pad_size_nth)
  with h i have "\<exists>i < length (shape v). pad_size cfg len (shape v) sch ! i < int (shape v ! i)"
    by auto
  with h have "fixed_size_item cfg len b (k, v) = Inl PadTargetTooSmall"
    by (simp add: fixed_size_item_schema)
  then have item: "fixed_size_item cfg len b (f ! j) = Inl PadTargetTooSmall"
    using assms by simp
  note err = make_fixed_size_item_error [OF assms(1) item]
  from err show "\<exists>e. make_fixed_size f cfg len b = Inl e" by simp
  assume "\<forall>j' < j. \<exists>r. fixed_size_item cfg len b (f ! j') = Inr r"
  with err show "make_fixed_size f cfg len b = Inl PadTargetTooSmall" by simp
qed

text \<open>
  The claim as stated fails where the resolved target is 0: with
  \<open>max_msa_clusters = max_templates\<close> the target of \<open>NUM_MSA_SEQ\<close> is 0, the existing size 2
  exceeds it, and the call returns the tensor as it is instead of failing.
\<close>

theorem make_fixed_size_zero_target_no_failure:
  "pad_size_map \<lparr>feat = [(''msa_mask'', [NUM_MSA_SEQ, NUM_RES])],
      max_msa_clusters = 4, max_templates = 4, max_extra_msa = 1\<rparr> 3 NUM_MSA_SEQ = Some 0 \<and>
   (0::int) < int (shape \<lparr>shape = [2, 3],
        elems = Array [Array [Scalar (1::int), Scalar 1, Scalar 1],
                       Array [Scalar 1, Scalar 1, Scalar 1]]\<rparr> ! 0) \<and>
   make_fixed_size
     [(''msa_mask'', \<lparr>shape = [2, 3],
        elems = Array [Array [Scalar (1::int), Scalar 1, Scalar 1],
                       Array [Scalar 1, Scalar 1, Scalar 1]]\<rparr>)]
     \<lparr>feat = [(''msa_mask'', [NUM_MSA_SEQ, NUM_RES])],
      max_msa_clusters = 4, max_templates = 4, max_extra_msa = 1\<rparr> 3 False
   = Inr [(''msa_mask'', \<lparr>shape = [2, 3],
        elems = Array [Array [Scalar 1, Scalar 1, Scalar 1],
                       Array [Scalar 1, Scalar 1, Scalar 1]]\<rparr>)]"
  by (simp add: make_fixed_size_def fixed_size_item_def shape_schema_def pad_size_def tf_pad_def)

theorem make_fixed_size_pads_trailing_witness:
  "make_fixed_size
     [(''seq_mask'', \<lparr>shape = [2], elems = Array [Scalar (1::int), Scalar 1]\<rparr>)]
     \<lparr>feat = [(''seq_mask'', [NUM_RES])], max_msa_clusters = 1, max_templates = 0,
      max_extra_msa = 1\<rparr> 3 False
   = Inr [(''seq_mask'', \<lparr>shape = [3], elems = Array [Scalar 1, Scalar 1, Scalar 0]\<rparr>)] \<and>
   list_all2 (\<le>) [2] [3::nat] \<and>
   trailing_pad (Array [Scalar (1::int), Scalar 1]) (Array [Scalar 1, Scalar 1, Scalar 0]) \<and>
   make_fixed_size
     [(''seq_mask'', \<lparr>shape = [2], elems = Array [Scalar (1::int), Scalar 1]\<rparr>)]
     \<lparr>feat = [(''seq_mask'', [NUM_RES])], max_msa_clusters = 1, max_templates = 0,
      max_extra_msa = 1\<rparr> 1 False
   = Inl PadTargetTooSmall"
proof -
  let ?cfg = "\<lparr>feat = [(''seq_mask'', [NUM_RES])], max_msa_clusters = 1, max_templates = 0,
      max_extra_msa = 1\<rparr>"
  let ?v = "\<lparr>shape = [2], elems = Array [Scalar (1::int), Scalar 1]\<rparr>"
  let ?g = "[(''seq_mask'', \<lparr>shape = [3], elems = Array [Scalar (1::int), Scalar 1, Scalar 0]\<rparr>)]"
  have run: "make_fixed_size [(''seq_mask'', ?v)] ?cfg 3 False = Inr ?g"
    by (simp add: make_fixed_size_def fixed_size_item_def shape_schema_def pad_size_def tf_pad_def)
  have sch: "shape_schema ?cfg False ''seq_mask'' = Some [NUM_RES]"
    by (simp add: shape_schema_def)
  from make_fixed_size_pads_trailing
         [of 0 "[(''seq_mask'', ?v)]" "''seq_mask''" ?v ?cfg 3 False ?g] run
  have a: "list_all2 (\<le>) [2] [3::nat] \<and>
           trailing_pad (Array [Scalar (1::int), Scalar 1]) (Array [Scalar 1, Scalar 1, Scalar 0])"
    by simp
  from make_fixed_size_pads_trailing
         [of 0 "[(''seq_mask'', ?v)]" "''seq_mask''" ?v ?cfg 1 False _ "[NUM_RES]" 0 1] sch
  have b: "make_fixed_size [(''seq_mask'', ?v)] ?cfg 1 False = Inl PadTargetTooSmall"
    by simp
  from run a b show ?thesis by simp
qed

subsection \<open>C4: the rank check\<close>

text \<open>
  Claim C4, as amended. When a tensor's rank differs from the rank of its schema entry,
  \<open>make_fixed_size\<close> fails and returns nothing, with \<open>RankMismatch\<close> when no earlier tensor
  of the dictionary fails. When every tensor's rank matches its schema entry,
  \<open>RankMismatch\<close> is not raised, and the only error left is \<open>PadTargetTooSmall\<close>.
\<close>

theorem make_fixed_size_rank_check:
  "(j < length f \<and> f ! j = (k, v) \<and> k \<noteq> ''extra_cluster_assignment'' \<and>
    shape_schema cfg b k = Some sch \<and> length (shape v) \<noteq> length sch \<longrightarrow>
      (\<exists>e. make_fixed_size f cfg len b = Inl e) \<and>
      ((\<forall>j' < j. \<exists>r. fixed_size_item cfg len b (f ! j') = Inr r) \<longrightarrow>
         make_fixed_size f cfg len b = Inl RankMismatch)) \<and>
   (ranks_match cfg b f \<longrightarrow>
      make_fixed_size f cfg len b \<noteq> Inl RankMismatch \<and>
      (\<forall>e. make_fixed_size f cfg len b = Inl e \<longrightarrow> e = PadTargetTooSmall))"
proof (intro conjI impI)
  assume h: "j < length f \<and> f ! j = (k, v) \<and> k \<noteq> ''extra_cluster_assignment'' \<and>
    shape_schema cfg b k = Some sch \<and> length (shape v) \<noteq> length sch"
  then have item: "fixed_size_item cfg len b (f ! j) = Inl RankMismatch"
    by (simp add: fixed_size_item_rank)
  from h have j: "j < length f" by simp
  note err = make_fixed_size_item_error [OF j item]
  from err show "\<exists>e. make_fixed_size f cfg len b = Inl e" by simp
  assume "\<forall>j' < j. \<exists>r. fixed_size_item cfg len b (f ! j') = Inr r"
  with err show "make_fixed_size f cfg len b = Inl RankMismatch" by simp
next
  assume rm: "ranks_match cfg b f"
  have only: "e = PadTargetTooSmall" if "make_fixed_size f cfg len b = Inl e" for e
  proof -
    from that obtain j where j: "j < length f" and item: "fixed_size_item cfg len b (f ! j) = Inl e"
      unfolding make_fixed_size_def using loop_error_origin by blast
    obtain k v where kv: "f ! j = (k, v)" by (cases "f ! j")
    from j kv have mem: "(k, v) \<in> set f" by (metis nth_mem)
    show ?thesis
    proof (cases "k = ''extra_cluster_assignment''")
      case True
      with item kv show ?thesis by (simp add: fixed_size_item_extra)
    next
      case False
      with rm mem obtain sch where "shape_schema cfg b k = Some sch" "length (shape v) = length sch"
        by (fastforce simp: ranks_match_def split: option.splits)
      with False item kv show ?thesis
        by (simp add: fixed_size_item_schema split: if_splits)
    qed
  qed
  then show "make_fixed_size f cfg len b \<noteq> Inl RankMismatch" by blast
  from only show "\<forall>e. make_fixed_size f cfg len b = Inl e \<longrightarrow> e = PadTargetTooSmall" by blast
qed

text \<open>
  The claim as stated says no error is raised when every rank matches. Here the rank
  matches and the call fails, because the size 3 exceeds the target length 2.
\<close>

theorem make_fixed_size_rank_ok_yet_error:
  "shape_schema \<lparr>feat = [(''seq_mask'', [NUM_RES])], max_msa_clusters = 1, max_templates = 0,
      max_extra_msa = 1\<rparr> False ''seq_mask'' = Some [NUM_RES] \<and>
   length (shape \<lparr>shape = [3], elems = Array [Scalar (1::int), Scalar 1, Scalar 1]\<rparr>)
     = length [NUM_RES] \<and>
   make_fixed_size
     [(''seq_mask'', \<lparr>shape = [3], elems = Array [Scalar (1::int), Scalar 1, Scalar 1]\<rparr>)]
     \<lparr>feat = [(''seq_mask'', [NUM_RES])], max_msa_clusters = 1, max_templates = 0,
      max_extra_msa = 1\<rparr> 2 False
   = Inl PadTargetTooSmall"
  by (simp add: make_fixed_size_def fixed_size_item_def shape_schema_def pad_size_def tf_pad_def)

theorem make_fixed_size_rank_check_witness:
  "make_fixed_size
     [(''seq_mask'', \<lparr>shape = [1, 2], elems = Array [Array [Scalar (1::int), Scalar 1]]\<rparr>)]
     \<lparr>feat = [(''seq_mask'', [NUM_RES])], max_msa_clusters = 1, max_templates = 0,
      max_extra_msa = 1\<rparr> 3 False
   = Inl RankMismatch \<and>
   make_fixed_size
     [(''seq_mask'', \<lparr>shape = [2], elems = Array [Scalar (1::int), Scalar 1]\<rparr>)]
     \<lparr>feat = [(''seq_mask'', [NUM_RES])], max_msa_clusters = 1, max_templates = 0,
      max_extra_msa = 1\<rparr> 3 False
   \<noteq> Inl RankMismatch"
proof -
  let ?cfg = "\<lparr>feat = [(''seq_mask'', [NUM_RES])], max_msa_clusters = 1, max_templates = 0,
      max_extra_msa = 1\<rparr>"
  let ?bad = "\<lparr>shape = [1, 2], elems = Array [Array [Scalar (1::int), Scalar 1]]\<rparr>"
  let ?good = "\<lparr>shape = [2], elems = Array [Scalar (1::int), Scalar 1]\<rparr>"
  have sch: "shape_schema ?cfg False ''seq_mask'' = Some [NUM_RES]"
    by (simp add: shape_schema_def)
  from make_fixed_size_rank_check
         [of 0 "[(''seq_mask'', ?bad)]" "''seq_mask''" ?bad ?cfg False "[NUM_RES]" 3] sch
  have a: "make_fixed_size [(''seq_mask'', ?bad)] ?cfg 3 False = Inl RankMismatch"
    by simp
  have "ranks_match ?cfg False [(''seq_mask'', ?good)]"
    by (simp add: ranks_match_def shape_schema_def)
  with make_fixed_size_rank_check [of _ "[(''seq_mask'', ?good)]" _ _ ?cfg False _ 3]
  have b: "make_fixed_size [(''seq_mask'', ?good)] ?cfg 3 False \<noteq> Inl RankMismatch"
    by blast
  from a b show ?thesis by simp
qed

subsection \<open>Index replication: auxiliary facts\<close>













subsection \<open>C5: the replicated residue index of hallucination\<close>



subsection \<open>Structure loading: auxiliary facts\<close>

lemma np_select_length: "np_select keep xs = Inr ys \<Longrightarrow> length keep = length xs"
  by (auto simp: np_select_def split: if_splits)


subsection \<open>C1: imputation of the CB atom\<close>







subsection \<open>C2: residue index offsets between chains\<close>




subsection \<open>Binder preparation: auxiliary facts\<close>


lemma dict_get_dict_set_other: "k' \<noteq> k \<Longrightarrow> dict_get (dict_set k v d) k' = dict_get d k'"
  by (induction d) (auto simp: dict_get_def)


















subsection \<open>C6: binder hallucination\<close>





subsection \<open>The option store: auxiliary facts\<close>













subsection \<open>C8: the snapshot of the design options\<close>



end
